theory Spec2Isabelle
  imports Main "HOL-Library.Sublist" "HOL-Library.Word"
begin

section \<open>Python strings\<close>

text \<open>
  A Python \<open>str\<close> is a sequence of Unicode code points: \<open>len\<close>, slicing and the
  \<open>in\<close> test all count code points. A string is therefore a list of code points, and
  \<open>asc\<close> reads an ASCII literal of the source.
\<close>

type_synonym pystr = "nat list"

definition asc :: "string \<Rightarrow> pystr" where
  "asc s = map of_char s"

text \<open>
  \<open>str.isspace\<close> of one code point: the code points CPython treats as whitespace
  (U+0009..U+000D, U+001C..U+0020, U+0085, U+00A0, U+1680, U+2000..U+200A, U+2028,
  U+2029, U+202F, U+205F, U+3000). \<open>str.strip()\<close> drops them at both ends.
\<close>

definition py_isspace :: "nat \<Rightarrow> bool" where
  "py_isspace c =
     ((9 \<le> c \<and> c \<le> 13) \<or> (28 \<le> c \<and> c \<le> 32) \<or> c = 133 \<or> c = 160 \<or> c = 5760
      \<or> (8192 \<le> c \<and> c \<le> 8202) \<or> c = 8232 \<or> c = 8233 \<or> c = 8239 \<or> c = 8287
      \<or> c = 12288)"

definition py_strip :: "pystr \<Rightarrow> pystr" where
  "py_strip s = rev (dropWhile py_isspace (rev (dropWhile py_isspace s)))"

text \<open>
  \<open>str.lower()\<close>: on a string of ASCII code points it maps \<open>A..Z\<close> to \<open>a..z\<close> and
  leaves the rest. On a string with a code point beyond ASCII Python follows the Unicode
  case tables (context sensitive, and able to produce ASCII letters: U+0130, U+212A);
  those tables are not part of the repository, so that case is the parameter
  \<open>ulower\<close>, about which nothing is assumed.
\<close>

definition ascii_lower :: "nat \<Rightarrow> nat" where
  "ascii_lower c = (if 65 \<le> c \<and> c \<le> 90 then c + 32 else c)"

definition py_lower :: "(pystr \<Rightarrow> pystr) \<Rightarrow> pystr \<Rightarrow> pystr" where
  "py_lower ulower s = (if list_all (\<lambda>c. c < 128) s then map ascii_lower s else ulower s)"

text \<open>The substring test \<open>x in m\<close>: \<open>x\<close> starts at some position of \<open>m\<close>.\<close>

fun py_in :: "pystr \<Rightarrow> pystr \<Rightarrow> bool" where
  "py_in x [] = (x = [])"
| "py_in x (c # cs) = (prefix x (c # cs) \<or> py_in x cs)"

section \<open>The responder\<close>

text \<open>The canned replies of \<open>codebro_brain\<close>, in the order of its rules.\<close>

definition greeting_reply :: pystr where
  "greeting_reply =
     asc ''Hey! I'm CodeBro '' @ [129302, 128153] @ asc '' '' @ [8212]
     @ asc '' your coding sidekick. Ask me about React, FastAPI, MongoDB, Tailwind, or deployment!''"

definition deployment_reply :: pystr where
  "deployment_reply =
     asc ''Deployment tips:\<newline>''
     @ asc ''- Frontend: build with Vite (npm run build) and host static files (Vercel/Netlify).\<newline>''
     @ asc ''- Backend: use FastAPI + Uvicorn on a server (Railway/Render/Fly.io).\<newline>''
     @ asc ''- Set DATABASE_URL and DATABASE_NAME env vars.\<newline>''
     @ asc ''- Enable CORS and point frontend to your backend URL via VITE_BACKEND_URL.''"

definition react_reply :: pystr where
  "react_reply =
     asc ''In React with Vite: manage state with hooks (useState/useEffect), fetch from your API using fetch/axios, and use Tailwind for rapid UI.\<newline>''
     @ asc ''Need a quick example?\<newline>\<newline>''
     @ asc ''useEffect(() => { fetch('/api').then(r=>r.json()).then(setData); }, []);''"

definition fastapi_reply :: pystr where
  "fastapi_reply =
     asc ''FastAPI quickstart:\<newline>\<newline>''
     @ asc ''from fastapi import FastAPI\<newline>app = FastAPI()\<newline>@app.get('/')\<newline>def home(): return {'ok': True}\<newline>\<newline>''
     @ asc ''Run with: uvicorn main:app --reload''"

definition mongodb_reply :: pystr where
  "mongodb_reply =
     asc ''MongoDB patterns:\<newline>- Use a single client and reuse the db handle.\<newline>- Store timestamps (created_at/updated_at).\<newline>- Index frequent query fields.\<newline>- Keep references by storing ObjectId as string if you prefer simple JSON APIs.''"

definition tailwind_reply :: pystr where
  "tailwind_reply =
     asc ''Tailwind tip: compose utilities and extract components when repeated. Use container, max-w-*, and prose for long content.''"

definition debug_reply :: pystr where
  "debug_reply =
     asc ''Debug flow I recommend:\<newline>1) Reproduce reliably.\<newline>2) Read the exact error and the stack.\<newline>3) Minimize to a tiny snippet.\<newline>4) Add logs/prints.\<newline>5) Fix, then add a test to avoid regressions.''"

text \<open>
  The default reply is an f-string around the stripped message: U+2192 is the arrow and
  34 the double quote on both sides of the echoed text.
\<close>

definition default_reply :: "pystr \<Rightarrow> pystr" where
  "default_reply s =
     asc ''I hear you! Here's a quick, actionable reply:\<newline>\<newline>''
     @ asc ''- Summary: you said '' @ [8594] @ asc '' '' @ [34] @ s @ [34] @ asc ''\<newline>''
     @ asc ''- Next step: break it into smaller tasks and tackle them one by one.\<newline>''
     @ asc ''- Want code? Paste a snippet and I'll review it.''"

definition codebro_brain :: "(pystr \<Rightarrow> pystr) \<Rightarrow> pystr \<Rightarrow> pystr" where
  "codebro_brain ulower user_message =
     (let m = py_lower ulower (py_strip user_message) in
      if list_ex (\<lambda>x. py_in x m) [asc ''hello'', asc ''hi'', asc ''hey''] then greeting_reply
      else if py_in (asc ''deploy'') m \<or> py_in (asc ''deployment'') m then deployment_reply
      else if py_in (asc ''react'') m then react_reply
      else if py_in (asc ''fastapi'') m \<or> py_in (asc ''python'') m then fastapi_reply
      else if py_in (asc ''mongodb'') m \<or> py_in (asc ''mongo'') m \<or> py_in (asc ''database'') m
        then mongodb_reply
      else if py_in (asc ''tailwind'') m then tailwind_reply
      else if py_in (asc ''code'') m \<or> py_in (asc ''bug'') m \<or> py_in (asc ''error'') m
              \<or> py_in (asc ''fix'') m
        then debug_reply
      else default_reply (py_strip user_message))"

section \<open>Identifiers of the store\<close>

text \<open>
  A bson \<open>ObjectId\<close> is a string of bytes, twelve of them when the store generates it.
  \<open>str(oid)\<close> is its lower-case hexadecimal text, two digits a byte.
\<close>

type_synonym oid = "8 word list"

definition hexdigit :: "nat \<Rightarrow> nat" where
  "hexdigit d = (if d < 10 then 48 + d else 87 + d)"

definition hex_of_byte :: "8 word \<Rightarrow> pystr" where
  "hex_of_byte b = [hexdigit (unat b div 16), hexdigit (unat b mod 16)]"

definition str_of_oid :: "oid \<Rightarrow> pystr" where
  "str_of_oid i = concat (map hex_of_byte i)"

text \<open>
  \<open>ObjectId(s)\<close> for a string \<open>s\<close>: the string must have 24 code points, and is then
  read by \<open>bytes.fromhex\<close>, which skips ASCII whitespace before each pair of digits and
  accepts digits in either case. Anything else raises \<open>InvalidId\<close>.
\<close>

definition hexval :: "nat \<Rightarrow> nat option" where
  "hexval c =
     (if 48 \<le> c \<and> c \<le> 57 then Some (c - 48)
      else if 97 \<le> c \<and> c \<le> 102 then Some (c - 87)
      else if 65 \<le> c \<and> c \<le> 70 then Some (c - 55)
      else None)"

definition ascii_space :: "nat \<Rightarrow> bool" where
  "ascii_space c = ((9 \<le> c \<and> c \<le> 13) \<or> c = 32)"

fun fromhex :: "pystr \<Rightarrow> oid option" where
  "fromhex [] = Some []"
| "fromhex [c] = (if ascii_space c then Some [] else None)"
| "fromhex (c # d # cs) =
     (if ascii_space c then fromhex (d # cs)
      else case hexval c of
             None \<Rightarrow> None
           | Some h \<Rightarrow>
               (case hexval d of
                  None \<Rightarrow> None
                | Some l \<Rightarrow> map_option ((#) (of_nat (16 * h + l))) (fromhex cs)))"

datatype error =
    ConfigurationError  \<comment> \<open>HTTP 500, "Database not configured"\<close>
  | NotFound            \<comment> \<open>HTTP 404, "Conversation not found"\<close>
  | ValidationError     \<comment> \<open>the request model rejects the body\<close>
  | InvalidId           \<comment> \<open>bson.errors.InvalidId, caught nowhere: HTTP 500\<close>

definition ObjectId :: "pystr \<Rightarrow> error + oid" where
  "ObjectId s =
     (if length s = 24 then (case fromhex s of None \<Rightarrow> Inl InvalidId | Some b \<Rightarrow> Inr b)
      else Inl InvalidId)"

section \<open>The document store\<close>

text \<open>
  The two collections, each in the order its documents were stored. A creation
  timestamp is a point of the store's clock.
\<close>

type_synonym timestamp = nat

record conversation_doc =
  conv_id :: oid
  conv_title :: pystr
  conv_created_at :: timestamp

record message_doc =
  msg_id :: oid
  msg_conversation_id :: pystr
  msg_role :: pystr
  msg_content :: pystr
  msg_created_at :: timestamp

record store =
  db_conversation :: "conversation_doc list"
  db_message :: "message_doc list"

text \<open>
  The fields a caller hands over for a new document: a title for the collection
  \<open>conversation\<close>; a conversation reference, a role and a content for the collection
  \<open>message\<close>. A stamp is the identifier and the creation timestamp the store picks
  for the new document.
\<close>

datatype fields =
    ConversationFields pystr
  | MessageFields pystr pystr pystr

type_synonym stamp = "oid \<times> timestamp"

text \<open>
  Modelled from the spec: \<open>create_document\<close> of the module \<open>database\<close>, which is
  not among the sources. The spec gives \<open>create(collection, fields) -> id\<close>, with records
  that carry a store-generated identifier and a store-assigned creation timestamp. The
  identifier and the timestamp the store picks are the argument \<open>(i, t)\<close>; the
  collection is the constructor of the fields; the new document goes to the end of its
  collection; the result is the text of the identifier (\<open>chat\<close> returns it in a field
  declared \<open>str\<close>).
\<close>

fun create_document :: "store \<Rightarrow> stamp \<Rightarrow> fields \<Rightarrow> store \<times> pystr" where
  "create_document d (i, t) (ConversationFields ttl) =
     (d\<lparr>db_conversation :=
          db_conversation d @ [\<lparr>conv_id = i, conv_title = ttl, conv_created_at = t\<rparr>]\<rparr>,
      str_of_oid i)"
| "create_document d (i, t) (MessageFields cid r c) =
     (d\<lparr>db_message :=
          db_message d @ [\<lparr>msg_id = i, msg_conversation_id = cid, msg_role = r,
                           msg_content = c, msg_created_at = t\<rparr>]\<rparr>,
      str_of_oid i)"

text \<open>
  The queries of the store client: \<open>find_one\<close> gives the first document that matches,
  \<open>count_documents\<close> counts the messages filed under a conversation reference, and the
  two sorts order by \<open>created_at\<close> (the store promises no order among documents with
  equal timestamps; here the one stored later comes first among them).
\<close>

fun find_one :: "('a \<Rightarrow> bool) \<Rightarrow> 'a list \<Rightarrow> 'a option" where
  "find_one P [] = None"
| "find_one P (x # xs) = (if P x then Some x else find_one P xs)"

definition count_documents :: "message_doc list \<Rightarrow> pystr \<Rightarrow> nat" where
  "count_documents ms cid = length (filter (\<lambda>m. msg_conversation_id m = cid) ms)"

fun insert_desc :: "conversation_doc \<Rightarrow> conversation_doc list \<Rightarrow> conversation_doc list" where
  "insert_desc c [] = [c]"
| "insert_desc c (x # xs) =
     (if conv_created_at x < conv_created_at c then c # x # xs else x # insert_desc c xs)"

definition sort_desc :: "conversation_doc list \<Rightarrow> conversation_doc list" where
  "sort_desc cs = foldr insert_desc cs []"

fun insert_asc :: "message_doc \<Rightarrow> message_doc list \<Rightarrow> message_doc list" where
  "insert_asc m [] = [m]"
| "insert_asc m (x # xs) =
     (if msg_created_at m < msg_created_at x then m # x # xs else x # insert_asc m xs)"

definition sort_asc :: "message_doc list \<Rightarrow> message_doc list" where
  "sort_asc ms = foldr insert_asc ms []"

section \<open>The routes\<close>

text \<open>
  \<open>serialize_doc\<close> copies a document, turning its \<open>ObjectId\<close> into text and its
  timestamp into ISO text. The timestamp stays a point of the clock here: its ISO text is
  never read again.
\<close>

record conversation_json =
  json_id :: pystr
  json_title :: pystr
  json_created_at :: timestamp

record message_json =
  mjson_id :: pystr
  mjson_conversation_id :: pystr
  mjson_role :: pystr
  mjson_content :: pystr
  mjson_created_at :: timestamp

definition serialize_conversation :: "conversation_doc \<Rightarrow> conversation_json" where
  "serialize_conversation c =
     \<lparr>json_id = str_of_oid (conv_id c), json_title = conv_title c,
      json_created_at = conv_created_at c\<rparr>"

definition serialize_message :: "message_doc \<Rightarrow> message_json" where
  "serialize_message m =
     \<lparr>mjson_id = str_of_oid (msg_id m), mjson_conversation_id = msg_conversation_id m,
      mjson_role = msg_role m, mjson_content = msg_content m,
      mjson_created_at = msg_created_at m\<rparr>"

text \<open>
  Python's truth test on an optional string, as in \<open>not conversation_id\<close> and
  \<open>req.title or "New Chat"\<close>: \<open>None\<close> and the empty string are false.
\<close>

definition falsy :: "pystr option \<Rightarrow> bool" where
  "falsy x = (case x of None \<Rightarrow> True | Some s \<Rightarrow> s = [])"

text \<open>
  The global \<open>db\<close> is \<open>None\<close> when no database is configured; every route below
  first checks it. A route that writes returns the store it leaves.
\<close>

definition create_conversation ::
  "store option \<Rightarrow> stamp \<Rightarrow> pystr option \<Rightarrow> error + (store \<times> pystr \<times> pystr)" where
  "create_conversation db sc req_title =
     (case db of
        None \<Rightarrow> Inl ConfigurationError
      | Some d \<Rightarrow>
          (let title = (if falsy req_title then asc ''New Chat'' else the req_title);
               (d', convo_id) = create_document d sc (ConversationFields title)
           in Inr (d', convo_id, title)))"

text \<open>Each item of the listing is the serialized conversation with its \<open>messages_count\<close>.\<close>

definition list_conversations :: "store option \<Rightarrow> error + (conversation_json \<times> nat) list" where
  "list_conversations db =
     (case db of
        None \<Rightarrow> Inl ConfigurationError
      | Some d \<Rightarrow>
          Inr (map (\<lambda>it. let j = serialize_conversation it
                          in (j, count_documents (db_message d) (json_id j)))
                   (take 50 (sort_desc (db_conversation d)))))"

definition get_conversation ::
  "store option \<Rightarrow> pystr \<Rightarrow> error + (conversation_json \<times> message_json list)" where
  "get_conversation db conversation_id =
     (case db of
        None \<Rightarrow> Inl ConfigurationError
      | Some d \<Rightarrow>
          (case ObjectId conversation_id of
             Inl e \<Rightarrow> Inl e
           | Inr i \<Rightarrow>
               (case find_one (\<lambda>c. conv_id c = i) (db_conversation d) of
                  None \<Rightarrow> Inl NotFound
                | Some convo \<Rightarrow>
                    Inr (serialize_conversation convo,
                         map serialize_message
                           (sort_asc (filter (\<lambda>m. msg_conversation_id m = conversation_id)
                                             (db_message d)))))))"

record ChatRequest =
  message :: pystr
  conversation_id :: "pystr option"

record ChatResponse =
  resp_conversation_id :: pystr
  reply :: pystr

text \<open>The title of a conversation that \<open>chat\<close> opens; 8230 is the ellipsis U+2026.\<close>

definition chat_title :: "pystr \<Rightarrow> pystr" where
  "chat_title msg = take 40 msg @ (if length msg > 40 then [8230] else [])"

text \<open>
  The body of \<open>chat\<close>. The stamps are the store's picks for the conversation
  (\<open>sc\<close>, used only when one is created), the user message (\<open>su\<close>) and the assistant
  message (\<open>sa\<close>).
\<close>

definition chat ::
  "(pystr \<Rightarrow> pystr) \<Rightarrow> store option \<Rightarrow> stamp \<Rightarrow> stamp \<Rightarrow> stamp \<Rightarrow> ChatRequest
     \<Rightarrow> error + (store \<times> ChatResponse)" where
  "chat ulower db sc su sa req =
     (case db of
        None \<Rightarrow> Inl ConfigurationError
      | Some d \<Rightarrow>
          (let (d1, cid) =
                 (if falsy (conversation_id req)
                  then create_document d sc (ConversationFields (chat_title (message req)))
                  else (d, the (conversation_id req)));
               (d2, _) = create_document d1 su (MessageFields cid (asc ''user'') (message req));
               r = codebro_brain ulower (message req);
               (d3, _) = create_document d2 sa (MessageFields cid (asc ''assistant'') r)
           in Inr (d3, \<lparr>resp_conversation_id = cid, reply = r\<rparr>)))"

text \<open>
  The request model \<open>ChatRequest\<close> is checked before the body runs:
  \<open>Field(..., min_length=1)\<close> on \<open>message\<close>, nothing on \<open>conversation_id\<close>.
\<close>

definition valid_ChatRequest :: "ChatRequest \<Rightarrow> bool" where
  "valid_ChatRequest req = (1 \<le> length (message req))"

definition post_chat ::
  "(pystr \<Rightarrow> pystr) \<Rightarrow> store option \<Rightarrow> stamp \<Rightarrow> stamp \<Rightarrow> stamp \<Rightarrow> ChatRequest
     \<Rightarrow> error + (store \<times> ChatResponse)" where
  "post_chat ulower db sc su sa req =
     (if valid_ChatRequest req then chat ulower db sc su sa req else Inl ValidationError)"

section \<open>Notions the properties are stated with\<close>

text \<open>
  The keywords of the seven rules, and whether any rule fires on a message: some keyword
  occurs in the stripped, lower-cased text.
\<close>

definition rule_keywords :: "pystr list" where
  "rule_keywords =
     [asc ''hello'', asc ''hi'', asc ''hey'', asc ''deploy'', asc ''deployment'', asc ''react'',
      asc ''fastapi'', asc ''python'', asc ''mongodb'', asc ''mongo'', asc ''database'',
      asc ''tailwind'', asc ''code'', asc ''bug'', asc ''error'', asc ''fix'']"

definition rule_matches :: "(pystr \<Rightarrow> pystr) \<Rightarrow> pystr \<Rightarrow> bool" where
  "rule_matches ulower user_message =
     list_ex (\<lambda>k. py_in k (py_lower ulower (py_strip user_message))) rule_keywords"

text \<open>
  A conversation reference resolves when the lookup of \<open>get_conversation\<close> finds a
  conversation for it. Referential integrity: every stored message's reference resolves.
\<close>

definition conv_exists :: "store \<Rightarrow> pystr \<Rightarrow> bool" where
  "conv_exists d s =
     (case ObjectId s of
        Inl e \<Rightarrow> False
      | Inr i \<Rightarrow> find_one (\<lambda>c. conv_id c = i) (db_conversation d) \<noteq> None)"

definition ref_integrity :: "store \<Rightarrow> bool" where
  "ref_integrity d = list_all (\<lambda>m. conv_exists d (msg_conversation_id m)) (db_message d)"

text \<open>
  The requests a client can send, each with the store's picks for the documents it may
  create, and the store they leave behind when a database is configured. A request that
  fails stores nothing.
\<close>

datatype op =
    OpCreateConversation stamp "pystr option"
  | OpListConversations
  | OpGetConversation pystr
  | OpChat stamp stamp stamp ChatRequest

fun apply_op :: "(pystr \<Rightarrow> pystr) \<Rightarrow> store \<Rightarrow> op \<Rightarrow> store" where
  "apply_op ulower d (OpCreateConversation sc t) =
     (case create_conversation (Some d) sc t of Inl e \<Rightarrow> d | Inr (d', r) \<Rightarrow> d')"
| "apply_op ulower d OpListConversations = d"
| "apply_op ulower d (OpGetConversation i) = d"
| "apply_op ulower d (OpChat sc su sa req) =
     (case post_chat ulower (Some d) sc su sa req of Inl e \<Rightarrow> d | Inr (d', r) \<Rightarrow> d')"

definition run_ops :: "(pystr \<Rightarrow> pystr) \<Rightarrow> store \<Rightarrow> op list \<Rightarrow> store" where
  "run_ops ulower d ops = foldl (apply_op ulower) d ops"

text \<open>
  A chat request is well referenced in a store when it names no conversation (the store
  then generates a twelve-byte identifier for the new one) or names one that resolves.
  A sequence is well referenced when each request is, in the store it meets.
\<close>

fun op_ok :: "store \<Rightarrow> op \<Rightarrow> bool" where
  "op_ok d (OpChat sc su sa req) =
     (if falsy (conversation_id req) then length (fst sc) = 12
      else conv_exists d (the (conversation_id req)))"
| "op_ok d (OpCreateConversation sc t) = True"
| "op_ok d OpListConversations = True"
| "op_ok d (OpGetConversation i) = True"

fun ops_ok :: "(pystr \<Rightarrow> pystr) \<Rightarrow> store \<Rightarrow> op list \<Rightarrow> bool" where
  "ops_ok ulower d [] = True"
| "ops_ok ulower d (x # xs) = (op_ok d x \<and> ops_ok ulower (apply_op ulower d x) xs)"

definition empty_store :: store where
  "empty_store = \<lparr>db_conversation = [], db_message = []\<rparr>"

text \<open>A small store for examples: two conversations, five messages.\<close>

definition example_store :: store where
  "example_store =
     \<lparr>db_conversation =
        [\<lparr>conv_id = [1], conv_title = asc ''first'', conv_created_at = 10\<rparr>,
         \<lparr>conv_id = [2], conv_title = asc ''second'', conv_created_at = 20\<rparr>],
      db_message =
        [\<lparr>msg_id = [3], msg_conversation_id = asc ''01'', msg_role = asc ''user'',
           msg_content = asc ''a'', msg_created_at = 11\<rparr>,
         \<lparr>msg_id = [4], msg_conversation_id = asc ''01'', msg_role = asc ''assistant'',
           msg_content = asc ''b'', msg_created_at = 12\<rparr>,
         \<lparr>msg_id = [5], msg_conversation_id = asc ''02'', msg_role = asc ''user'',
           msg_content = asc ''c'', msg_created_at = 21\<rparr>,
         \<lparr>msg_id = [6], msg_conversation_id = asc ''02'', msg_role = asc ''assistant'',
           msg_content = asc ''d'', msg_created_at = 22\<rparr>,
         \<lparr>msg_id = [7], msg_conversation_id = asc ''01'', msg_role = asc ''user'',
           msg_content = asc ''e'', msg_created_at = 23\<rparr>]\<rparr>"

section \<open>The responder: properties\<close>

lemma asc_nonempty: "s \<noteq> [] \<Longrightarrow> asc s \<noteq> []"
  by (simp add: asc_def)

lemma py_in_iff: "py_in x m \<longleftrightarrow> (\<exists>p s. m = p @ x @ s)"
proof (induction m)
  case Nil
  then show ?case by auto
next
  case (Cons c cs)
  show ?case
  proof
    assume "py_in x (c # cs)"
    then consider "prefix x (c # cs)" | "py_in x cs" by auto
    then show "\<exists>p s. c # cs = p @ x @ s"
    proof cases
      case 1
      then obtain s where "c # cs = x @ s" by (auto simp: prefix_def)
      then have "c # cs = [] @ x @ s" by simp
      then show ?thesis by blast
    next
      case 2
      with Cons.IH obtain p s where "cs = p @ x @ s" by blast
      then have "c # cs = (c # p) @ x @ s" by simp
      then show ?thesis by blast
    qed
  next
    assume "\<exists>p s. c # cs = p @ x @ s"
    then obtain p s where e: "c # cs = p @ x @ s" by blast
    show "py_in x (c # cs)"
    proof (cases p)
      case Nil
      with e have "prefix x (c # cs)" by (simp add: prefix_def)
      then show ?thesis by simp
    next
      case (Cons a p')
      with e have "cs = p' @ x @ s" by simp
      with Cons.IH have "py_in x cs" by blast
      then show ?thesis by simp
    qed
  qed
qed

lemma replies_nonempty:
  "greeting_reply \<noteq> []" "deployment_reply \<noteq> []" "react_reply \<noteq> []" "fastapi_reply \<noteq> []"
  "mongodb_reply \<noteq> []" "tailwind_reply \<noteq> []" "debug_reply \<noteq> []" "default_reply s \<noteq> []"
  by (simp_all add: greeting_reply_def deployment_reply_def react_reply_def fastapi_reply_def
      mongodb_reply_def tailwind_reply_def debug_reply_def default_reply_def asc_def)

text \<open>
  Claim C5. On every non-empty input the responder returns a non-empty reply, whatever
  Python's case tables do beyond ASCII.
\<close>

theorem codebro_brain_nonempty:
  "user_message \<noteq> [] \<Longrightarrow> codebro_brain ulower user_message \<noteq> []"
  by (simp add: codebro_brain_def Let_def replies_nonempty)

theorem codebro_brain_nonempty_witness:
  "asc ''why is the sky blue'' \<noteq> [] \<and> codebro_brain id (asc ''why is the sky blue'') \<noteq> []"
  using codebro_brain_nonempty [of "asc ''why is the sky blue''" id]
  by (simp add: asc_def)


lemma default_reply_echo: "py_in s (default_reply s)"
  unfolding py_in_iff default_reply_def
  by (metis append.assoc)

text \<open>
  Claim C7. When no keyword occurs in the stripped, lower-cased message, the responder
  returns the default reply built around the stripped message, and the stripped message
  occurs in that reply as it stands.
\<close>

theorem default_reply_when_no_rule:
  assumes "\<not> rule_matches ulower user_message"
  shows "codebro_brain ulower user_message = default_reply (py_strip user_message)
         \<and> py_in (py_strip user_message) (codebro_brain ulower user_message)"
proof -
  from assms have "codebro_brain ulower user_message = default_reply (py_strip user_message)"
    by (simp add: rule_matches_def rule_keywords_def codebro_brain_def Let_def)
  then show ?thesis by (simp add: default_reply_echo)
qed

theorem default_reply_when_no_rule_witness:
  "\<not> rule_matches id (asc ''asdfqwerty'')
   \<and> codebro_brain id (asc ''asdfqwerty'') = default_reply (py_strip (asc ''asdfqwerty''))
   \<and> py_strip (asc ''asdfqwerty'') = asc ''asdfqwerty''
   \<and> py_in (asc ''asdfqwerty'') (codebro_brain id (asc ''asdfqwerty''))"
proof -
  have h: "\<not> rule_matches id (asc ''asdfqwerty'')"
    by (simp add: rule_matches_def rule_keywords_def asc_def py_lower_def py_strip_def
        py_isspace_def ascii_lower_def)
  have s: "py_strip (asc ''asdfqwerty'') = asc ''asdfqwerty''"
    by (simp add: asc_def py_strip_def py_isspace_def)
  from default_reply_when_no_rule [OF h] h s show ?thesis by metis
qed

section \<open>A chat turn\<close>

text \<open>
  What \<open>post_chat\<close> computes, with the three writes spelt out.
\<close>

lemma post_chat_Some:
  "post_chat ulower (Some d) sc su sa req =
     (if message req = [] then Inl ValidationError
      else let cid = (if falsy (conversation_id req) then str_of_oid (fst sc)
                      else the (conversation_id req));
               d1 = (if falsy (conversation_id req)
                     then d\<lparr>db_conversation :=
                              db_conversation d
                              @ [\<lparr>conv_id = fst sc, conv_title = chat_title (message req),
                                   conv_created_at = snd sc\<rparr>]\<rparr>
                     else d)
           in Inr (d1\<lparr>db_message :=
                         db_message d1
                         @ [\<lparr>msg_id = fst su, msg_conversation_id = cid,
                              msg_role = asc ''user'', msg_content = message req,
                              msg_created_at = snd su\<rparr>,
                            \<lparr>msg_id = fst sa, msg_conversation_id = cid,
                              msg_role = asc ''assistant'',
                              msg_content = codebro_brain ulower (message req),
                              msg_created_at = snd sa\<rparr>]\<rparr>,
                   \<lparr>resp_conversation_id = cid,
                     reply = codebro_brain ulower (message req)\<rparr>))"
proof -
  obtain ic tc where sc: "sc = (ic, tc)" by (cases sc)
  obtain iu tu where su: "su = (iu, tu)" by (cases su)
  obtain ia ta where sa: "sa = (ia, ta)" by (cases sa)
  have v: "valid_ChatRequest req = (message req \<noteq> [])"
    by (cases "message req") (simp_all add: valid_ChatRequest_def)
  show ?thesis
    by (simp add: post_chat_def v chat_def sc su sa Let_def)
qed

lemma post_chat_None:
  "post_chat ulower None sc su sa req =
     (if message req = [] then Inl ValidationError else Inl ConfigurationError)"
  by (cases "message req") (simp_all add: post_chat_def valid_ChatRequest_def chat_def)

lemma length_str_of_oid: "length (str_of_oid i) = 2 * length i"
  by (induction i) (simp_all add: str_of_oid_def hex_of_byte_def)

lemma py_strip_spaces:
  assumes "list_all py_isspace s"
  shows "py_strip s = []"
proof -
  from assms have "dropWhile py_isspace s = []"
    by (simp add: list_all_iff)
  then show ?thesis
    by (simp only: py_strip_def rev.simps dropWhile.simps)
qed

lemma codebro_brain_blank:
  assumes "py_strip s = []"
  shows "codebro_brain ulower s = default_reply []"
  using assms by (simp add: codebro_brain_def py_lower_def asc_def)

lemma length_asc: "length (asc s) = length s"
  by (simp add: asc_def)

lemma asc_eq_Nil: "(asc s = []) = (s = [])"
  by (simp add: asc_def)

lemma chat_title_short: "length m \<le> 40 \<Longrightarrow> chat_title m = m"
  by (simp add: chat_title_def)

lemma brain_hi: "codebro_brain ulower (asc ''hi'') = greeting_reply"
  by (simp add: codebro_brain_def asc_def py_lower_def py_strip_def py_isspace_def
      ascii_lower_def)

lemma brain_react:
  "codebro_brain ulower (asc ''please tell me how to set up a react project from scratch'')
     = react_reply"
  by (simp add: codebro_brain_def asc_def py_lower_def py_strip_def py_isspace_def
      ascii_lower_def)

lemma str_of_oid_example:
  "str_of_oid [1, 2, 3, 4, 5, 6, 7, 8, 9, 10, 11, 12] = asc ''0102030405060708090a0b0c''"
  by (simp add: str_of_oid_def hex_of_byte_def hexdigit_def asc_def)

text \<open>
  Claim C1. With a database configured, a chat request with a non-empty message and no
  conversation id succeeds; it appends one conversation and then two messages filed
  under the text of that conversation's identifier, the user message with the request's
  text first and the assistant message with the responder's reply second, and it
  returns that identifier with the reply.
\<close>

theorem chat_new_conversation:
  assumes "message req \<noteq> []" and "conversation_id req = None"
  shows "post_chat ulower (Some d) sc su sa req =
           Inr (d\<lparr>db_conversation :=
                     db_conversation d
                     @ [\<lparr>conv_id = fst sc, conv_title = chat_title (message req),
                          conv_created_at = snd sc\<rparr>],
                   db_message :=
                     db_message d
                     @ [\<lparr>msg_id = fst su, msg_conversation_id = str_of_oid (fst sc),
                          msg_role = asc ''user'', msg_content = message req,
                          msg_created_at = snd su\<rparr>,
                        \<lparr>msg_id = fst sa, msg_conversation_id = str_of_oid (fst sc),
                          msg_role = asc ''assistant'',
                          msg_content = codebro_brain ulower (message req),
                          msg_created_at = snd sa\<rparr>]\<rparr>,
                \<lparr>resp_conversation_id = str_of_oid (fst sc),
                  reply = codebro_brain ulower (message req)\<rparr>)"
proof -
  obtain ic tc where sc: "sc = (ic, tc)" by (cases sc)
  obtain iu tu where su: "su = (iu, tu)" by (cases su)
  obtain ia ta where sa: "sa = (ia, ta)" by (cases sa)
  from assms have v: "valid_ChatRequest req"
    by (cases "message req") (simp_all add: valid_ChatRequest_def)
  from assms(2) have f: "falsy (conversation_id req)" by (simp add: falsy_def)
  show ?thesis
    by (simp add: post_chat_def v chat_def f sc su sa Let_def)
qed

theorem chat_new_conversation_witness:
  "message \<lparr>message = asc ''hi'', conversation_id = None\<rparr> \<noteq> []
   \<and> conversation_id \<lparr>message = asc ''hi'', conversation_id = None\<rparr> = None
   \<and> post_chat id (Some empty_store)
        ([1, 2, 3, 4, 5, 6, 7, 8, 9, 10, 11, 12], 100)
        ([1, 2, 3, 4, 5, 6, 7, 8, 9, 10, 11, 13], 101)
        ([1, 2, 3, 4, 5, 6, 7, 8, 9, 10, 11, 14], 102)
        \<lparr>message = asc ''hi'', conversation_id = None\<rparr>
      = Inr (\<lparr>db_conversation =
                 [\<lparr>conv_id = [1, 2, 3, 4, 5, 6, 7, 8, 9, 10, 11, 12], conv_title = asc ''hi'',
                    conv_created_at = 100\<rparr>],
               db_message =
                 [\<lparr>msg_id = [1, 2, 3, 4, 5, 6, 7, 8, 9, 10, 11, 13],
                    msg_conversation_id = asc ''0102030405060708090a0b0c'',
                    msg_role = asc ''user'', msg_content = asc ''hi'', msg_created_at = 101\<rparr>,
                  \<lparr>msg_id = [1, 2, 3, 4, 5, 6, 7, 8, 9, 10, 11, 14],
                    msg_conversation_id = asc ''0102030405060708090a0b0c'',
                    msg_role = asc ''assistant'', msg_content = greeting_reply,
                    msg_created_at = 102\<rparr>]\<rparr>,
             \<lparr>resp_conversation_id = asc ''0102030405060708090a0b0c'',
               reply = greeting_reply\<rparr>)"
proof -
  show ?thesis
    using chat_new_conversation
      [of "\<lparr>message = asc ''hi'', conversation_id = None\<rparr>" id empty_store
          "([1, 2, 3, 4, 5, 6, 7, 8, 9, 10, 11, 12], 100)"
          "([1, 2, 3, 4, 5, 6, 7, 8, 9, 10, 11, 13], 101)"
          "([1, 2, 3, 4, 5, 6, 7, 8, 9, 10, 11, 14], 102)"]
    by (simp add: str_of_oid_example asc_eq_Nil empty_store_def chat_title_short length_asc
        brain_hi)
qed

text \<open>
  Claim C10. A chat request whose conversation id is the empty string is treated as one
  without a conversation id: a conversation is created whose title is the first 40 code
  points of the message, followed by an ellipsis when the message is longer, and both
  messages are filed under the 24-digit text of the new identifier.
\<close>

theorem chat_empty_conversation_id:
  assumes "message req \<noteq> []" and "conversation_id req = Some []" and "length (fst sc) = 12"
  shows "post_chat ulower (Some d) sc su sa req
           = post_chat ulower (Some d) sc su sa (req\<lparr>conversation_id := None\<rparr>)
         \<and> post_chat ulower (Some d) sc su sa req =
             Inr (d\<lparr>db_conversation :=
                       db_conversation d
                       @ [\<lparr>conv_id = fst sc,
                            conv_title = take 40 (message req)
                                         @ (if 40 < length (message req) then [8230] else []),
                            conv_created_at = snd sc\<rparr>],
                     db_message :=
                       db_message d
                       @ [\<lparr>msg_id = fst su, msg_conversation_id = str_of_oid (fst sc),
                            msg_role = asc ''user'', msg_content = message req,
                            msg_created_at = snd su\<rparr>,
                          \<lparr>msg_id = fst sa, msg_conversation_id = str_of_oid (fst sc),
                            msg_role = asc ''assistant'',
                            msg_content = codebro_brain ulower (message req),
                            msg_created_at = snd sa\<rparr>]\<rparr>,
                  \<lparr>resp_conversation_id = str_of_oid (fst sc),
                    reply = codebro_brain ulower (message req)\<rparr>)
         \<and> length (str_of_oid (fst sc)) = 24"
  using assms
  by (simp add: post_chat_Some falsy_def chat_title_def length_str_of_oid Let_def)

theorem chat_empty_conversation_id_witness:
  "message \<lparr>message = asc ''please tell me how to set up a react project from scratch'',
            conversation_id = Some []\<rparr> \<noteq> []
   \<and> conversation_id
        \<lparr>message = asc ''please tell me how to set up a react project from scratch'',
          conversation_id = Some []\<rparr> = Some []
   \<and> length (fst ([1, 2, 3, 4, 5, 6, 7, 8, 9, 10, 11, 12 :: 8 word], 100 :: nat)) = 12
   \<and> post_chat id (Some empty_store)
        ([1, 2, 3, 4, 5, 6, 7, 8, 9, 10, 11, 12], 100)
        ([1, 2, 3, 4, 5, 6, 7, 8, 9, 10, 11, 13], 101)
        ([1, 2, 3, 4, 5, 6, 7, 8, 9, 10, 11, 14], 102)
        \<lparr>message = asc ''please tell me how to set up a react project from scratch'',
          conversation_id = Some []\<rparr>
      = Inr (\<lparr>db_conversation =
                 [\<lparr>conv_id = [1, 2, 3, 4, 5, 6, 7, 8, 9, 10, 11, 12],
                    conv_title = asc ''please tell me how to set up a react pro'' @ [8230],
                    conv_created_at = 100\<rparr>],
               db_message =
                 [\<lparr>msg_id = [1, 2, 3, 4, 5, 6, 7, 8, 9, 10, 11, 13],
                    msg_conversation_id = asc ''0102030405060708090a0b0c'',
                    msg_role = asc ''user'',
                    msg_content =
                      asc ''please tell me how to set up a react project from scratch'',
                    msg_created_at = 101\<rparr>,
                  \<lparr>msg_id = [1, 2, 3, 4, 5, 6, 7, 8, 9, 10, 11, 14],
                    msg_conversation_id = asc ''0102030405060708090a0b0c'',
                    msg_role = asc ''assistant'', msg_content = react_reply,
                    msg_created_at = 102\<rparr>]\<rparr>,
             \<lparr>resp_conversation_id = asc ''0102030405060708090a0b0c'',
               reply = react_reply\<rparr>)"
proof -
  let ?r = "\<lparr>message = asc ''please tell me how to set up a react project from scratch'',
             conversation_id = Some []\<rparr>"
  have t: "take 40 (asc ''please tell me how to set up a react project from scratch'')
             = asc ''please tell me how to set up a react pro''"
    by (simp add: asc_def)
  have h1: "message ?r \<noteq> []" by (simp add: asc_eq_Nil)
  have h2: "conversation_id ?r = Some []" by simp
  have h3: "length (fst ([1, 2, 3, 4, 5, 6, 7, 8, 9, 10, 11, 12 :: 8 word], 100 :: nat)) = 12"
    by simp
  note th = chat_empty_conversation_id
      [OF h1 h2 h3, of id empty_store
          "([1, 2, 3, 4, 5, 6, 7, 8, 9, 10, 11, 13], 101)"
          "([1, 2, 3, 4, 5, 6, 7, 8, 9, 10, 11, 14], 102)"]
  from th [THEN conjunct2, THEN conjunct1]
  have "post_chat id (Some empty_store)
        ([1, 2, 3, 4, 5, 6, 7, 8, 9, 10, 11, 12], 100)
        ([1, 2, 3, 4, 5, 6, 7, 8, 9, 10, 11, 13], 101)
        ([1, 2, 3, 4, 5, 6, 7, 8, 9, 10, 11, 14], 102) ?r
      = Inr (\<lparr>db_conversation =
                 [\<lparr>conv_id = [1, 2, 3, 4, 5, 6, 7, 8, 9, 10, 11, 12],
                    conv_title = asc ''please tell me how to set up a react pro'' @ [8230],
                    conv_created_at = 100\<rparr>],
               db_message =
                 [\<lparr>msg_id = [1, 2, 3, 4, 5, 6, 7, 8, 9, 10, 11, 13],
                    msg_conversation_id = asc ''0102030405060708090a0b0c'',
                    msg_role = asc ''user'',
                    msg_content =
                      asc ''please tell me how to set up a react project from scratch'',
                    msg_created_at = 101\<rparr>,
                  \<lparr>msg_id = [1, 2, 3, 4, 5, 6, 7, 8, 9, 10, 11, 14],
                    msg_conversation_id = asc ''0102030405060708090a0b0c'',
                    msg_role = asc ''assistant'', msg_content = react_reply,
                    msg_created_at = 102\<rparr>]\<rparr>,
             \<lparr>resp_conversation_id = asc ''0102030405060708090a0b0c'',
               reply = react_reply\<rparr>)"
    by (simp add: str_of_oid_example empty_store_def t length_asc brain_react)
  with h1 h2 h3 show ?thesis by blast
qed

text \<open>
  Claim C8, as stated, fails: the message made of one space is whitespace only, passes
  the check of the request model, and reaches the responder, whose reply is stored and
  returned.
\<close>

theorem chat_whitespace_accepted:
  "list_all py_isspace (message \<lparr>message = [32], conversation_id = None\<rparr>)
   \<and> valid_ChatRequest \<lparr>message = [32], conversation_id = None\<rparr>
   \<and> post_chat id (Some empty_store)
        ([1, 2, 3, 4, 5, 6, 7, 8, 9, 10, 11, 12], 100)
        ([1, 2, 3, 4, 5, 6, 7, 8, 9, 10, 11, 13], 101)
        ([1, 2, 3, 4, 5, 6, 7, 8, 9, 10, 11, 14], 102)
        \<lparr>message = [32], conversation_id = None\<rparr>
      = Inr (\<lparr>db_conversation =
                 [\<lparr>conv_id = [1, 2, 3, 4, 5, 6, 7, 8, 9, 10, 11, 12], conv_title = [32],
                    conv_created_at = 100\<rparr>],
               db_message =
                 [\<lparr>msg_id = [1, 2, 3, 4, 5, 6, 7, 8, 9, 10, 11, 13],
                    msg_conversation_id = asc ''0102030405060708090a0b0c'',
                    msg_role = asc ''user'', msg_content = [32], msg_created_at = 101\<rparr>,
                  \<lparr>msg_id = [1, 2, 3, 4, 5, 6, 7, 8, 9, 10, 11, 14],
                    msg_conversation_id = asc ''0102030405060708090a0b0c'',
                    msg_role = asc ''assistant'',
                    msg_content = codebro_brain id [32], msg_created_at = 102\<rparr>]\<rparr>,
             \<lparr>resp_conversation_id = asc ''0102030405060708090a0b0c'',
               reply = codebro_brain id [32]\<rparr>)
   \<and> codebro_brain id [32] = default_reply []"
proof -
  have w: "list_all py_isspace [32]" by (simp add: py_isspace_def)
  have w': "py_isspace 32" by (simp add: py_isspace_def)
  have b: "codebro_brain id [32] = default_reply []"
    by (rule codebro_brain_blank, rule py_strip_spaces, rule w)
  show ?thesis
    by (simp add: w' b valid_ChatRequest_def post_chat_Some falsy_def Let_def empty_store_def
        chat_title_def str_of_oid_example)
qed

text \<open>
  Claim C8, amended. The request model rejects the empty message and no other. A
  non-empty message of whitespace only is accepted; the responder runs on it and
  returns the default reply around the empty text.
\<close>

theorem chat_validation_only_empty:
  "(post_chat ulower db sc su sa req = Inl ValidationError) = (message req = [])
   \<and> (message req \<noteq> [] \<and> list_all py_isspace (message req) \<longrightarrow>
        valid_ChatRequest req
        \<and> map_sum id (reply \<circ> snd) (post_chat ulower (Some d) sc su sa req)
            = Inr (codebro_brain ulower (message req))
        \<and> codebro_brain ulower (message req) = default_reply [])"
proof -
  have a: "(post_chat ulower db sc su sa req = Inl ValidationError) = (message req = [])"
    by (cases db) (simp_all add: post_chat_None post_chat_Some Let_def)
  have b: "valid_ChatRequest req" if "message req \<noteq> []"
    using that by (cases "message req") (simp_all add: valid_ChatRequest_def)
  have c: "map_sum id (reply \<circ> snd) (post_chat ulower (Some d) sc su sa req)
            = Inr (codebro_brain ulower (message req))" if "message req \<noteq> []"
    using that by (simp add: post_chat_Some Let_def)
  have e: "codebro_brain ulower (message req) = default_reply []"
    if "list_all py_isspace (message req)"
    using that by (simp add: codebro_brain_blank py_strip_spaces)
  from a b c e show ?thesis by blast
qed

theorem chat_validation_only_empty_witness:
  "(post_chat id (Some empty_store) ([1, 2, 3, 4, 5, 6, 7, 8, 9, 10, 11, 12], 100)
        ([1, 2, 3, 4, 5, 6, 7, 8, 9, 10, 11, 13], 101)
        ([1, 2, 3, 4, 5, 6, 7, 8, 9, 10, 11, 14], 102)
        \<lparr>message = [9, 32, 10], conversation_id = None\<rparr> = Inl ValidationError)
     = (message \<lparr>message = [9, 32, 10], conversation_id = None\<rparr> = [])
   \<and> message \<lparr>message = [9, 32, 10], conversation_id = None\<rparr> \<noteq> []
   \<and> list_all py_isspace (message \<lparr>message = [9, 32, 10], conversation_id = None\<rparr>)
   \<and> valid_ChatRequest \<lparr>message = [9, 32, 10], conversation_id = None\<rparr>
   \<and> map_sum id (reply \<circ> snd)
        (post_chat id (Some empty_store) ([1, 2, 3, 4, 5, 6, 7, 8, 9, 10, 11, 12], 100)
           ([1, 2, 3, 4, 5, 6, 7, 8, 9, 10, 11, 13], 101)
           ([1, 2, 3, 4, 5, 6, 7, 8, 9, 10, 11, 14], 102)
           \<lparr>message = [9, 32, 10], conversation_id = None\<rparr>)
       = Inr (default_reply [])"
proof -
  have w: "list_all py_isspace (message \<lparr>message = [9, 32, 10], conversation_id = None\<rparr>)"
    by (simp add: py_isspace_def)
  have n: "message \<lparr>message = [9, 32, 10], conversation_id = None\<rparr> \<noteq> []"
    by simp
  from chat_validation_only_empty
      [of id "Some empty_store" "([1, 2, 3, 4, 5, 6, 7, 8, 9, 10, 11, 12], 100)"
          "([1, 2, 3, 4, 5, 6, 7, 8, 9, 10, 11, 13], 101)"
          "([1, 2, 3, 4, 5, 6, 7, 8, 9, 10, 11, 14], 102)"
          "\<lparr>message = [9, 32, 10], conversation_id = None\<rparr>" empty_store]
    w n
  show ?thesis by metis
qed

section \<open>Listing conversations\<close>

lemma set_insert_desc: "set (insert_desc c xs) = insert c (set xs)"
  by (induction xs) auto

lemma length_insert_desc: "length (insert_desc c xs) = Suc (length xs)"
  by (induction xs) auto

lemma sorted_insert_desc:
  "sorted_wrt (\<lambda>a b. conv_created_at b \<le> conv_created_at a) xs
   \<Longrightarrow> sorted_wrt (\<lambda>a b. conv_created_at b \<le> conv_created_at a) (insert_desc c xs)"
  by (induction xs) (auto simp: set_insert_desc)

lemma set_sort_desc: "set (sort_desc cs) = set cs"
  by (induction cs) (simp_all add: sort_desc_def set_insert_desc)

lemma length_sort_desc: "length (sort_desc cs) = length cs"
  by (induction cs) (simp_all add: sort_desc_def length_insert_desc)

lemma sorted_sort_desc:
  "sorted_wrt (\<lambda>a b. conv_created_at b \<le> conv_created_at a) (sort_desc cs)"
  by (induction cs) (simp_all add: sort_desc_def sorted_insert_desc)

lemma sorted_wrt_take_drop:
  assumes "sorted_wrt R xs" and "x \<in> set (take n xs)" and "y \<in> set (drop n xs)"
  shows "R x y"
proof -
  have "sorted_wrt R (take n xs @ drop n xs)" using assms(1) by simp
  then show ?thesis using assms(2,3) unfolding sorted_wrt_append by blast
qed

lemma sorted_wrt_take: "sorted_wrt R xs \<Longrightarrow> sorted_wrt R (take n xs)"
proof -
  assume "sorted_wrt R xs"
  then have "sorted_wrt R (take n xs @ drop n xs)" by simp
  then show ?thesis unfolding sorted_wrt_append by blast
qed

text \<open>
  Claim C2. With a database configured, the listing succeeds on every store. It has
  \<open>min 50 n\<close> items for \<open>n\<close> stored conversations, newest first; each item is a
  stored conversation, serialized, with the number of stored messages whose conversation
  reference is the text of its identifier; and a conversation left out is no newer than
  any item.
\<close>

theorem list_conversations_newest_first:
  "case list_conversations (Some d) of
     Inl e \<Rightarrow> False
   | Inr items \<Rightarrow>
       length items = min 50 (length (db_conversation d))
       \<and> sorted_wrt (\<lambda>a b. json_created_at (fst b) \<le> json_created_at (fst a)) items
       \<and> (\<forall>it \<in> set items.
             (\<exists>c \<in> set (db_conversation d). fst it = serialize_conversation c)
             \<and> snd it = length (filter (\<lambda>m. msg_conversation_id m = json_id (fst it))
                                        (db_message d)))
       \<and> (\<forall>c \<in> set (db_conversation d).
             serialize_conversation c \<notin> fst ` set items \<longrightarrow>
             (\<forall>it \<in> set items. conv_created_at c \<le> json_created_at (fst it)))"
proof -
  let ?s = "sort_desc (db_conversation d)"
  let ?f = "\<lambda>it. let j = serialize_conversation it
                 in (j, count_documents (db_message d) (json_id j))"
  let ?items = "map ?f (take 50 ?s)"
  have r: "list_conversations (Some d) = Inr ?items"
    by (simp add: list_conversations_def)
  have l: "length ?items = min 50 (length (db_conversation d))"
    by (simp add: length_sort_desc min.commute)
  have "sorted_wrt (\<lambda>a b. conv_created_at b \<le> conv_created_at a) (take 50 ?s)"
    by (rule sorted_wrt_take) (rule sorted_sort_desc)
  then have o: "sorted_wrt (\<lambda>a b. json_created_at (fst b) \<le> json_created_at (fst a)) ?items"
    by (simp add: sorted_wrt_map Let_def serialize_conversation_def)
  have m: "\<forall>it \<in> set ?items.
             (\<exists>c \<in> set (db_conversation d). fst it = serialize_conversation c)
             \<and> snd it = length (filter (\<lambda>m. msg_conversation_id m = json_id (fst it))
                                        (db_message d))"
  proof
    fix it assume "it \<in> set ?items"
    then obtain c where c: "c \<in> set (take 50 ?s)" and it: "it = ?f c" by auto
    from c have "c \<in> set ?s" by (rule in_set_takeD)
    then have "c \<in> set (db_conversation d)" by (simp add: set_sort_desc)
    with it show "(\<exists>c \<in> set (db_conversation d). fst it = serialize_conversation c)
             \<and> snd it = length (filter (\<lambda>m. msg_conversation_id m = json_id (fst it))
                                        (db_message d))"
      by (auto simp: Let_def count_documents_def)
  qed
  have n: "\<forall>c \<in> set (db_conversation d).
             serialize_conversation c \<notin> fst ` set ?items \<longrightarrow>
             (\<forall>it \<in> set ?items. conv_created_at c \<le> json_created_at (fst it))"
  proof (intro ballI impI)
    fix c it
    assume c: "c \<in> set (db_conversation d)"
      and notin: "serialize_conversation c \<notin> fst ` set ?items"
      and it: "it \<in> set ?items"
    from it obtain x where x: "x \<in> set (take 50 ?s)" and itx: "it = ?f x" by auto
    have "c \<notin> set (take 50 ?s)"
    proof
      assume "c \<in> set (take 50 ?s)"
      then have "?f c \<in> set ?items" by simp
      then have "fst (?f c) \<in> fst ` set ?items" by (rule imageI)
      with notin show False by (simp add: Let_def)
    qed
    moreover have "set ?s = set (take 50 ?s) \<union> set (drop 50 ?s)"
      by (metis append_take_drop_id set_append)
    moreover from c have "c \<in> set ?s" by (simp add: set_sort_desc)
    ultimately have "c \<in> set (drop 50 ?s)" by blast
    with sorted_sort_desc x have "conv_created_at c \<le> conv_created_at x"
      by (rule sorted_wrt_take_drop)
    with itx show "conv_created_at c \<le> json_created_at (fst it)"
      by (simp add: Let_def serialize_conversation_def)
  qed
  from l o m n show ?thesis unfolding r by simp
qed

theorem list_conversations_newest_first_witness:
  "list_conversations (Some example_store)
     = Inr [(\<lparr>json_id = asc ''02'', json_title = asc ''second'', json_created_at = 20\<rparr>, 2),
            (\<lparr>json_id = asc ''01'', json_title = asc ''first'', json_created_at = 10\<rparr>, 3)]
   \<and> (case list_conversations (Some example_store) of
         Inl e \<Rightarrow> False
       | Inr items \<Rightarrow>
           length items = min 50 (length (db_conversation example_store))
           \<and> sorted_wrt (\<lambda>a b. json_created_at (fst b) \<le> json_created_at (fst a)) items
           \<and> (\<forall>it \<in> set items.
                 (\<exists>c \<in> set (db_conversation example_store). fst it = serialize_conversation c)
                 \<and> snd it = length (filter (\<lambda>m. msg_conversation_id m = json_id (fst it))
                                            (db_message example_store)))
           \<and> (\<forall>c \<in> set (db_conversation example_store).
                 serialize_conversation c \<notin> fst ` set items \<longrightarrow>
                 (\<forall>it \<in> set items. conv_created_at c \<le> json_created_at (fst it))))"
proof (rule conjI)
  show "list_conversations (Some example_store)
     = Inr [(\<lparr>json_id = asc ''02'', json_title = asc ''second'', json_created_at = 20\<rparr>, 2),
            (\<lparr>json_id = asc ''01'', json_title = asc ''first'', json_created_at = 10\<rparr>, 3)]"
    by (simp add: list_conversations_def example_store_def sort_desc_def Let_def
        serialize_conversation_def count_documents_def str_of_oid_def hex_of_byte_def
        hexdigit_def asc_def)
qed (rule list_conversations_newest_first)

section \<open>Reading an identifier back\<close>

text \<open>
  \<open>ObjectId(str(i)) = i\<close> for a twelve-byte identifier: the text of an identifier
  the store generated always resolves to it.
\<close>

lemma hexval_hexdigit: "d < 16 \<Longrightarrow> hexval (hexdigit d) = Some d"
  by (simp add: hexval_def hexdigit_def)

lemma hexdigit_not_space: "d < 16 \<Longrightarrow> \<not> ascii_space (hexdigit d)"
  by (simp add: ascii_space_def hexdigit_def)

lemma byte_split: "(of_nat (16 * (unat b div 16) + unat b mod 16) :: 8 word) = b"
  by simp

lemma unat_byte_div: "unat (b :: 8 word) div 16 < 16"
proof -
  have "unat b < 2 ^ LENGTH(8)" by (rule unsigned_less)
  then show ?thesis by simp
qed

lemma fromhex_hex_of_byte:
  "fromhex (hex_of_byte b @ cs) = map_option ((#) b) (fromhex cs)"
proof -
  have h: "hexval (hexdigit (unat b div 16)) = Some (unat b div 16)"
    by (rule hexval_hexdigit) (rule unat_byte_div)
  have l: "hexval (hexdigit (unat b mod 16)) = Some (unat b mod 16)"
    by (rule hexval_hexdigit) simp
  have s: "\<not> ascii_space (hexdigit (unat b div 16))"
    by (rule hexdigit_not_space) (rule unat_byte_div)
  show ?thesis
    by (simp add: hex_of_byte_def h l s byte_split del: of_nat_add of_nat_mult)
qed

lemma fromhex_str_of_oid: "fromhex (str_of_oid i) = Some i"
proof (induction i)
  case Nil
  then show ?case by (simp add: str_of_oid_def)
next
  case (Cons b i)
  have "str_of_oid (b # i) = hex_of_byte b @ str_of_oid i"
    by (simp add: str_of_oid_def)
  with Cons show ?case by (simp add: fromhex_hex_of_byte)
qed

lemma ObjectId_str_of_oid: "length i = 12 \<Longrightarrow> ObjectId (str_of_oid i) = Inr i"
  by (simp add: ObjectId_def length_str_of_oid fromhex_str_of_oid)

lemma ObjectId_wrong_length: "length s \<noteq> 24 \<Longrightarrow> ObjectId s = Inl InvalidId"
  by (simp add: ObjectId_def)

lemma ObjectId_example:
  "ObjectId (asc ''0102030405060708090a0b0c'') = Inr [1, 2, 3, 4, 5, 6, 7, 8, 9, 10, 11, 12]"
  using ObjectId_str_of_oid [of "[1, 2, 3, 4, 5, 6, 7, 8, 9, 10, 11, 12]"]
  by (simp add: str_of_oid_example)

section \<open>Fetching a conversation\<close>

lemma set_insert_asc: "set (insert_asc m xs) = insert m (set xs)"
  by (induction xs) auto

lemma sorted_insert_asc:
  "sorted_wrt (\<lambda>a b. msg_created_at a \<le> msg_created_at b) xs
   \<Longrightarrow> sorted_wrt (\<lambda>a b. msg_created_at a \<le> msg_created_at b) (insert_asc m xs)"
  by (induction xs) (auto simp: set_insert_asc)

lemma set_sort_asc: "set (sort_asc ms) = set ms"
  by (induction ms) (simp_all add: sort_asc_def set_insert_asc)

lemma length_insert_asc: "length (insert_asc m xs) = Suc (length xs)"
  by (induction xs) auto

lemma length_sort_asc: "length (sort_asc ms) = length ms"
  by (induction ms) (simp_all add: sort_asc_def length_insert_asc)

lemma sorted_sort_asc:
  "sorted_wrt (\<lambda>a b. msg_created_at a \<le> msg_created_at b) (sort_asc ms)"
  by (induction ms) (simp_all add: sort_asc_def sorted_insert_asc)

lemma find_one_None: "(find_one P xs = None) = (\<forall>x \<in> set xs. \<not> P x)"
  by (induction xs) auto

lemma find_one_Some: "find_one P xs = Some x \<Longrightarrow> x \<in> set xs \<and> P x"
  by (induction xs) (auto split: if_splits)

lemma get_conversation_wrong_length:
  "length s \<noteq> 24 \<Longrightarrow> get_conversation (Some d) s = Inl InvalidId"
  by (simp add: get_conversation_def ObjectId_wrong_length)

text \<open>
  Claim C3. The identifier "unknown-id" resolves to no conversation, yet the lookup does
  not fail with \<open>NotFound\<close>: \<open>ObjectId\<close> raises \<open>InvalidId\<close> on a text that is
  not 24 code points long, before the store is asked, and nothing catches it.
\<close>

theorem get_conversation_malformed_id:
  "get_conversation (Some empty_store) (asc ''unknown-id'') = Inl InvalidId
   \<and> get_conversation (Some empty_store) (asc ''unknown-id'') \<noteq> Inl NotFound"
  by (simp add: get_conversation_wrong_length asc_def)

text \<open>
  What does hold. On the text of a twelve-byte identifier the lookup fails with
  \<open>NotFound\<close> when no conversation has that identifier, and otherwise returns the
  first such conversation with the messages filed under that text, oldest first.
\<close>

lemma get_conversation_canonical:
  assumes "length i = 12"
  shows "get_conversation (Some d) (str_of_oid i) =
           (case find_one (\<lambda>c. conv_id c = i) (db_conversation d) of
              None \<Rightarrow> Inl NotFound
            | Some convo \<Rightarrow>
                Inr (serialize_conversation convo,
                     map serialize_message
                       (sort_asc (filter (\<lambda>m. msg_conversation_id m = str_of_oid i)
                                         (db_message d)))))"
  using assms by (simp add: get_conversation_def ObjectId_str_of_oid)

text \<open>
  The messages are selected by the request's text, not by the identifier it was read
  as: the upper-case spelling of an identifier finds the conversation and none of the
  messages filed under the lower-case text the store returned.
\<close>

lemma get_conversation_upper_case_id:
  "get_conversation
     (Some \<lparr>db_conversation =
              [\<lparr>conv_id = [171, 2, 3, 4, 5, 6, 7, 8, 9, 10, 11, 12], conv_title = asc ''t'',
                 conv_created_at = 1\<rparr>],
            db_message =
              [\<lparr>msg_id = [1, 2, 3, 4, 5, 6, 7, 8, 9, 10, 11, 13],
                 msg_conversation_id = str_of_oid [171, 2, 3, 4, 5, 6, 7, 8, 9, 10, 11, 12],
                 msg_role = asc ''user'', msg_content = asc ''hi'', msg_created_at = 2\<rparr>]\<rparr>)
     (asc ''AB02030405060708090a0b0c'')
   = Inr (\<lparr>json_id = asc ''ab02030405060708090a0b0c'', json_title = asc ''t'',
            json_created_at = 1\<rparr>, [])"
  by (simp add: get_conversation_def ObjectId_def asc_def hexval_def ascii_space_def
      str_of_oid_def hex_of_byte_def hexdigit_def serialize_conversation_def sort_asc_def)

section \<open>Referential integrity\<close>

lemma find_one_append:
  "find_one P (xs @ ys) = (case find_one P xs of None \<Rightarrow> find_one P ys | Some x \<Rightarrow> Some x)"
  by (induction xs) auto

lemma conv_exists_mono:
  assumes "conv_exists d s" and "db_conversation d' = db_conversation d @ cs"
  shows "conv_exists d' s"
  using assms
  by (auto simp: conv_exists_def find_one_append split: sum.splits option.splits)

lemma conv_exists_new:
  assumes "length i = 12" and "db_conversation d' = db_conversation d @ [c]" and "conv_id c = i"
  shows "conv_exists d' (str_of_oid i)"
  using assms
  by (simp add: conv_exists_def ObjectId_str_of_oid find_one_append split: option.splits)

lemma ref_integrity_mono:
  assumes "ref_integrity d" and "db_conversation d' = db_conversation d @ cs"
      and "db_message d' = db_message d @ ms"
      and "\<forall>m \<in> set ms. conv_exists d' (msg_conversation_id m)"
  shows "ref_integrity d'"
  using assms
  by (auto simp: ref_integrity_def list_all_iff intro: conv_exists_mono)

lemma apply_op_chat:
  "apply_op ulower d (OpChat sc su sa req) =
     (if message req = [] then d
      else let cid = (if falsy (conversation_id req) then str_of_oid (fst sc)
                      else the (conversation_id req));
               d1 = (if falsy (conversation_id req)
                     then d\<lparr>db_conversation :=
                              db_conversation d
                              @ [\<lparr>conv_id = fst sc, conv_title = chat_title (message req),
                                   conv_created_at = snd sc\<rparr>]\<rparr>
                     else d)
           in d1\<lparr>db_message :=
                    db_message d1
                    @ [\<lparr>msg_id = fst su, msg_conversation_id = cid,
                         msg_role = asc ''user'', msg_content = message req,
                         msg_created_at = snd su\<rparr>,
                       \<lparr>msg_id = fst sa, msg_conversation_id = cid,
                         msg_role = asc ''assistant'',
                         msg_content = codebro_brain ulower (message req),
                         msg_created_at = snd sa\<rparr>]\<rparr>)"
  by (simp add: post_chat_Some Let_def)

lemma apply_op_create:
  "apply_op ulower d (OpCreateConversation sc t) =
     d\<lparr>db_conversation :=
         db_conversation d
         @ [\<lparr>conv_id = fst sc,
              conv_title = (if falsy t then asc ''New Chat'' else the t),
              conv_created_at = snd sc\<rparr>]\<rparr>"
  by (cases sc) (simp add: create_conversation_def Let_def)

lemma apply_op_preserves:
  assumes "ref_integrity d" and "op_ok d x"
  shows "ref_integrity (apply_op ulower d x)"
proof (cases x)
  case (OpCreateConversation sc t)
  have "ref_integrity (apply_op ulower d (OpCreateConversation sc t))"
  proof (rule ref_integrity_mono [OF assms(1)])
    show "db_conversation (apply_op ulower d (OpCreateConversation sc t))
            = db_conversation d
              @ [\<lparr>conv_id = fst sc,
                   conv_title = (if falsy t then asc ''New Chat'' else the t),
                   conv_created_at = snd sc\<rparr>]"
      by (simp add: apply_op_create del: apply_op.simps)
    show "db_message (apply_op ulower d (OpCreateConversation sc t)) = db_message d @ []"
      by (simp add: apply_op_create del: apply_op.simps)
    show "\<forall>m \<in> set []. conv_exists (apply_op ulower d (OpCreateConversation sc t))
                                    (msg_conversation_id m)"
      by simp
  qed
  then show ?thesis by (simp only: OpCreateConversation)
next
  case OpListConversations
  with assms(1) show ?thesis by simp
next
  case (OpGetConversation i)
  with assms(1) show ?thesis by simp
next
  case (OpChat sc su sa req)
  let ?d' = "apply_op ulower d (OpChat sc su sa req)"
  have "ref_integrity ?d'"
  proof (cases "message req = []")
    case True
    with assms(1) show ?thesis by (simp add: apply_op_chat del: apply_op.simps)
  next
    case ne: False
    let ?cid = "if falsy (conversation_id req) then str_of_oid (fst sc)
                else the (conversation_id req)"
    let ?ms = "[\<lparr>msg_id = fst su, msg_conversation_id = ?cid,
                  msg_role = asc ''user'', msg_content = message req,
                  msg_created_at = snd su\<rparr>,
                \<lparr>msg_id = fst sa, msg_conversation_id = ?cid,
                  msg_role = asc ''assistant'',
                  msg_content = codebro_brain ulower (message req),
                  msg_created_at = snd sa\<rparr>]"
    let ?cs = "if falsy (conversation_id req)
               then [\<lparr>conv_id = fst sc, conv_title = chat_title (message req),
                       conv_created_at = snd sc\<rparr>]
               else []"
    have dc: "db_conversation ?d' = db_conversation d @ ?cs"
      using ne by (simp add: apply_op_chat Let_def del: apply_op.simps)
    have dm: "db_message ?d' = db_message d @ ?ms"
      using ne by (simp add: apply_op_chat Let_def del: apply_op.simps)
    have e: "conv_exists ?d' ?cid"
    proof (cases "falsy (conversation_id req)")
      case True
      with assms(2) have l: "length (fst sc) = 12" by (simp add: OpChat)
      from dc True have "db_conversation ?d'
          = db_conversation d @ [\<lparr>conv_id = fst sc, conv_title = chat_title (message req),
                                    conv_created_at = snd sc\<rparr>]"
        by simp
      with l have "conv_exists ?d' (str_of_oid (fst sc))"
        by (rule conv_exists_new) simp
      with True show ?thesis by simp
    next
      case False
      with assms(2) have "conv_exists d (the (conversation_id req))"
        by (simp add: OpChat)
      then have "conv_exists ?d' (the (conversation_id req))"
        using dc by (rule conv_exists_mono)
      with False show ?thesis by simp
    qed
    have "\<forall>m \<in> set ?ms. conv_exists ?d' (msg_conversation_id m)"
      using e by (simp del: apply_op.simps)
    with assms(1) dc dm show ?thesis by (rule ref_integrity_mono)
  qed
  then show ?thesis by (simp only: OpChat)
qed

text \<open>
  Claim C4, as stated, fails: a chat request that names the conversation "nope" on an
  empty store files both of its messages under "nope", and no conversation exists.
\<close>

theorem chat_dangling_reference:
  "\<not> ref_integrity
       (run_ops id empty_store
          [OpChat ([1, 2, 3, 4, 5, 6, 7, 8, 9, 10, 11, 12], 100)
                  ([1, 2, 3, 4, 5, 6, 7, 8, 9, 10, 11, 13], 101)
                  ([1, 2, 3, 4, 5, 6, 7, 8, 9, 10, 11, 14], 102)
                  \<lparr>message = asc ''hi'', conversation_id = Some (asc ''nope'')\<rparr>])
   \<and> map msg_conversation_id
        (db_message
           (run_ops id empty_store
              [OpChat ([1, 2, 3, 4, 5, 6, 7, 8, 9, 10, 11, 12], 100)
                      ([1, 2, 3, 4, 5, 6, 7, 8, 9, 10, 11, 13], 101)
                      ([1, 2, 3, 4, 5, 6, 7, 8, 9, 10, 11, 14], 102)
                      \<lparr>message = asc ''hi'', conversation_id = Some (asc ''nope'')\<rparr>]))
       = [asc ''nope'', asc ''nope'']
   \<and> db_conversation
        (run_ops id empty_store
           [OpChat ([1, 2, 3, 4, 5, 6, 7, 8, 9, 10, 11, 12], 100)
                   ([1, 2, 3, 4, 5, 6, 7, 8, 9, 10, 11, 13], 101)
                   ([1, 2, 3, 4, 5, 6, 7, 8, 9, 10, 11, 14], 102)
                   \<lparr>message = asc ''hi'', conversation_id = Some (asc ''nope'')\<rparr>])
       = []"
  by (simp add: run_ops_def apply_op_chat falsy_def asc_eq_Nil empty_store_def Let_def
      ref_integrity_def conv_exists_def ObjectId_def length_asc del: apply_op.simps)

text \<open>
  Claim C4, amended. Starting from a store with referential integrity, every sequence
  of requests in which each chat request either names no conversation or names one that
  resolves in the store it meets leaves a store with referential integrity.
\<close>

theorem ref_integrity_preserved:
  assumes "ref_integrity d" and "ops_ok ulower d ops"
  shows "ref_integrity (run_ops ulower d ops)"
  using assms
proof (induction ops arbitrary: d)
  case Nil
  then show ?case by (simp add: run_ops_def)
next
  case (Cons x xs)
  from Cons.prems have "ref_integrity (apply_op ulower d x)"
    by (simp add: apply_op_preserves)
  moreover from Cons.prems have "ops_ok ulower (apply_op ulower d x) xs" by simp
  ultimately have "ref_integrity (run_ops ulower (apply_op ulower d x) xs)"
    by (rule Cons.IH)
  then show ?case by (simp add: run_ops_def)
qed

theorem ref_integrity_preserved_witness:
  "ref_integrity empty_store
   \<and> ops_ok id empty_store
        [OpChat ([1, 2, 3, 4, 5, 6, 7, 8, 9, 10, 11, 12], 100)
                ([1, 2, 3, 4, 5, 6, 7, 8, 9, 10, 11, 13], 101)
                ([1, 2, 3, 4, 5, 6, 7, 8, 9, 10, 11, 14], 102)
                \<lparr>message = asc ''hi'', conversation_id = None\<rparr>,
         OpGetConversation (asc ''0102030405060708090a0b0c''),
         OpChat ([1, 2, 3, 4, 5, 6, 7, 8, 9, 10, 11, 15], 103)
                ([1, 2, 3, 4, 5, 6, 7, 8, 9, 10, 11, 16], 104)
                ([1, 2, 3, 4, 5, 6, 7, 8, 9, 10, 11, 17], 105)
                \<lparr>message = asc ''hi'',
                  conversation_id = Some (asc ''0102030405060708090a0b0c'')\<rparr>]
   \<and> ref_integrity
        (run_ops id empty_store
           [OpChat ([1, 2, 3, 4, 5, 6, 7, 8, 9, 10, 11, 12], 100)
                   ([1, 2, 3, 4, 5, 6, 7, 8, 9, 10, 11, 13], 101)
                   ([1, 2, 3, 4, 5, 6, 7, 8, 9, 10, 11, 14], 102)
                   \<lparr>message = asc ''hi'', conversation_id = None\<rparr>,
            OpGetConversation (asc ''0102030405060708090a0b0c''),
            OpChat ([1, 2, 3, 4, 5, 6, 7, 8, 9, 10, 11, 15], 103)
                   ([1, 2, 3, 4, 5, 6, 7, 8, 9, 10, 11, 16], 104)
                   ([1, 2, 3, 4, 5, 6, 7, 8, 9, 10, 11, 17], 105)
                   \<lparr>message = asc ''hi'',
                     conversation_id = Some (asc ''0102030405060708090a0b0c'')\<rparr>])
   \<and> length (db_message
        (run_ops id empty_store
           [OpChat ([1, 2, 3, 4, 5, 6, 7, 8, 9, 10, 11, 12], 100)
                   ([1, 2, 3, 4, 5, 6, 7, 8, 9, 10, 11, 13], 101)
                   ([1, 2, 3, 4, 5, 6, 7, 8, 9, 10, 11, 14], 102)
                   \<lparr>message = asc ''hi'', conversation_id = None\<rparr>,
            OpGetConversation (asc ''0102030405060708090a0b0c''),
            OpChat ([1, 2, 3, 4, 5, 6, 7, 8, 9, 10, 11, 15], 103)
                   ([1, 2, 3, 4, 5, 6, 7, 8, 9, 10, 11, 16], 104)
                   ([1, 2, 3, 4, 5, 6, 7, 8, 9, 10, 11, 17], 105)
                   \<lparr>message = asc ''hi'',
                     conversation_id = Some (asc ''0102030405060708090a0b0c'')\<rparr>])) = 4"
proof -
  have h1: "ref_integrity empty_store"
    by (simp add: ref_integrity_def empty_store_def)
  have h2: "ops_ok id empty_store
        [OpChat ([1, 2, 3, 4, 5, 6, 7, 8, 9, 10, 11, 12], 100)
                ([1, 2, 3, 4, 5, 6, 7, 8, 9, 10, 11, 13], 101)
                ([1, 2, 3, 4, 5, 6, 7, 8, 9, 10, 11, 14], 102)
                \<lparr>message = asc ''hi'', conversation_id = None\<rparr>,
         OpGetConversation (asc ''0102030405060708090a0b0c''),
         OpChat ([1, 2, 3, 4, 5, 6, 7, 8, 9, 10, 11, 15], 103)
                ([1, 2, 3, 4, 5, 6, 7, 8, 9, 10, 11, 16], 104)
                ([1, 2, 3, 4, 5, 6, 7, 8, 9, 10, 11, 17], 105)
                \<lparr>message = asc ''hi'',
                  conversation_id = Some (asc ''0102030405060708090a0b0c'')\<rparr>]"
    by (simp add: post_chat_Some falsy_def asc_eq_Nil empty_store_def Let_def
        conv_exists_def ObjectId_example)
  have h3: "length (db_message
        (run_ops id empty_store
           [OpChat ([1, 2, 3, 4, 5, 6, 7, 8, 9, 10, 11, 12], 100)
                   ([1, 2, 3, 4, 5, 6, 7, 8, 9, 10, 11, 13], 101)
                   ([1, 2, 3, 4, 5, 6, 7, 8, 9, 10, 11, 14], 102)
                   \<lparr>message = asc ''hi'', conversation_id = None\<rparr>,
            OpGetConversation (asc ''0102030405060708090a0b0c''),
            OpChat ([1, 2, 3, 4, 5, 6, 7, 8, 9, 10, 11, 15], 103)
                   ([1, 2, 3, 4, 5, 6, 7, 8, 9, 10, 11, 16], 104)
                   ([1, 2, 3, 4, 5, 6, 7, 8, 9, 10, 11, 17], 105)
                   \<lparr>message = asc ''hi'',
                     conversation_id = Some (asc ''0102030405060708090a0b0c'')\<rparr>])) = 4"
    by (simp add: run_ops_def post_chat_Some falsy_def asc_eq_Nil empty_store_def Let_def)
  from ref_integrity_preserved [OF h1 h2] h1 h2 h3 show ?thesis by blast
qed

end
